theory Spec2Isabelle
  imports Complex_Main
begin

section \<open>Common data: errors, arrays and array indexing\<close>

text \<open>
  The sources are Python on top of numpy/scipy. Arrays are lists, array values are
  exact reals (the model does not round), node and connection numbers are naturals.
  Every exception of the source is a value of \<open>error\<close>.
\<close>

datatype error =
    Exception string
  | IndexError
  | ValueError
  | TypeError
  | AttributeError
  | KeyError
  | UnboundLocalError
  | LinAlgError

text \<open>\<open>a[idx]\<close> with an integer array \<open>idx\<close>: out of range raises IndexError.\<close>

definition take_idx :: "'a list \<Rightarrow> nat list \<Rightarrow> error + 'a list" where
  "take_idx xs idx =
     (if \<forall>i\<in>set idx. i < length xs then Inr (map ((!) xs) idx) else Inl IndexError)"

text \<open>\<open>sp.unique\<close>: the sorted distinct values of an array.\<close>

definition unique :: "real list \<Rightarrow> real list" where
  "unique xs = sort (remdups xs)"

section \<open>Geometry model: throat diameter from the connecting pores\<close>

text \<open>
  \<open>minpore\<close> of \<open>Geometry/models/throat_diameter.py\<close>. The network is read through
  \<open>network["pore.diameter"]\<close> and \<open>network["throat.conns"]\<close>; \<open>nTs\<close> is the list of
  network throat numbers of the geometry's throats (\<open>geometry.map_throats\<close>).
\<close>

record geo_network =
  pore_diameter :: "real list"
  throat_conns :: "(nat \<times> nat) list"

definition minpore :: "geo_network \<Rightarrow> nat list \<Rightarrow> error + real list" where
  "minpore network nTs =
     (case take_idx (throat_conns network) nTs of
        Inl e \<Rightarrow> Inl e
      | Inr cs \<Rightarrow>
          (if \<exists>c\<in>set cs. \<not> (fst c < length (pore_diameter network)
                              \<and> snd c < length (pore_diameter network))
           then Inl IndexError
           else
             let pDs = map (\<lambda>c. (pore_diameter network ! fst c,
                                  pore_diameter network ! snd c)) cs;
                 value = map (\<lambda>d. min (fst d) (snd d)) pDs;
                 maxs = map (\<lambda>d. max (fst d) (snd d)) pDs
             in Inr (map (\<lambda>i. if value ! i = 0 then maxs ! i else value ! i)
                       [0..<length value])))"

definition geo_wf :: "geo_network \<Rightarrow> nat list \<Rightarrow> bool" where
  "geo_wf network nTs \<longleftrightarrow>
     list_all (\<lambda>t. t < length (throat_conns network)
        \<and> fst (throat_conns network ! t) < length (pore_diameter network)
        \<and> snd (throat_conns network ! t) < length (pore_diameter network)) nTs"

definition geo_example :: geo_network where
  "geo_example = \<lparr> pore_diameter = [0, 3, 2], throat_conns = [(0, 1), (1, 2), (0, 0)] \<rparr>"

section \<open>The linear solver: data\<close>

text \<open>
  \<open>Algorithms/__LinearSolver__.py\<close>. The network object \<open>self._net\<close> is a record of
  what the solver reads from it. Its methods \<open>find_neighbor_pores\<close> (called with
  \<open>mode='not_intersection', excl_self=True\<close>) and \<open>find_connecting_throat\<close> belong to
  the network class, which is not part of the sources at hand: they are fields of the
  record, so every theorem below holds for any implementation of them.
\<close>

record network =
  num_pores :: nat
  connections :: "(nat \<times> nat) list"
  internal :: "nat list"
  cross_section :: "real list"
  find_neighbor_pores :: "nat list \<Rightarrow> nat list"
  find_connecting_throat :: "nat list \<Rightarrow> nat list \<Rightarrow> nat list"

definition num_throats :: "network \<Rightarrow> nat" where
  "num_throats net = length (connections net)"

definition pore_indices :: "network \<Rightarrow> nat list" where
  "pore_indices net = [0..<num_pores net]"

text \<open>The conductance attribute is a number or an array (\<open>sp.size\<close> tells them apart).\<close>

datatype cond_input = Scalar real | Array "real list"

text \<open>
  The attributes of the solver instance that the assembly reads and writes. The kinds
  are kept as the numbers the source stores: 0 none, 1 Dirichlet, 2 Neumann flux,
  3 Neumann insulated, 4 Neumann rate (grouped), 5 Neumann rate (individual).
  \<open>_boundary_conditions_setup\<close> (lines 104-105) creates both arrays with one entry
  per pore; the theorems about the builder are stated for arrays of that size.
  Logging is left out.
\<close>

record solver =
  BCtypes :: "nat list"
  BCvalues :: "real list"
  conductance :: cond_input
  extera_Neumann_equations :: "real list"
  g_super :: real
  Coeff_dimension :: nat
  Neumann_super_X :: "real list"
  result :: "real list"

text \<open>
  A sparse matrix in coordinate format: (row, column, value) triplets and the dimension
  of the square shape. Converting to compressed rows adds up the triplets of one
  position, so the matrix entry is the sum of the values stored for it.
\<close>

record coo =
  triplets :: "(nat \<times> nat \<times> real) list"
  dim :: nat

definition row_of :: "nat \<times> nat \<times> real \<Rightarrow> nat" where
  "row_of t = fst t"

definition col_of :: "nat \<times> nat \<times> real \<Rightarrow> nat" where
  "col_of t = fst (snd t)"

definition val_of :: "nat \<times> nat \<times> real \<Rightarrow> real" where
  "val_of t = snd (snd t)"

definition ent :: "(nat \<times> nat \<times> real) list \<Rightarrow> nat \<Rightarrow> nat \<Rightarrow> real" where
  "ent ts r c = sum_list (map val_of (filter (\<lambda>t. row_of t = r \<and> col_of t = c) ts))"

definition entry :: "coo \<Rightarrow> nat \<Rightarrow> nat \<Rightarrow> real" where
  "entry A r c = ent (triplets A) r c"

text \<open>The sum of all values stored for one row.\<close>

definition row_total :: "(nat \<times> nat \<times> real) list \<Rightarrow> nat \<Rightarrow> real" where
  "row_total ts r = sum_list (map val_of (filter (\<lambda>t. row_of t = r) ts))"

text \<open>\<open>coo_matrix((data,(row,col)),(n,n))\<close> refuses an index outside the shape.\<close>

definition coo_matrix :: "(nat \<times> nat \<times> real) list \<Rightarrow> nat \<Rightarrow> error + coo" where
  "coo_matrix ts n =
     (if \<forall>t\<in>set ts. row_of t < n \<and> col_of t < n
      then Inr \<lparr> triplets = ts, dim = n \<rparr> else Inl ValueError)"

text \<open>
  The positions where a kind array holds \<open>k\<close>: \<open>pnum[self._BCtypes==k]\<close> and
  \<open>dia[self._BCtypes==k]\<close>, both taken from the array of the numbers 0, 1, 2, ...
  The source is written for the numpy of its time, where a boolean mask selects the
  positions at which it is true, also from an array longer than the mask (line 196,
  once superpores exist), and where unary minus on a boolean array is its negation.
\<close>

definition kind_pores :: "nat list \<Rightarrow> nat \<Rightarrow> nat list" where
  "kind_pores bt k = [p \<leftarrow> [0..<length bt]. bt ! p = k]"

definition non_dirichlet :: "nat list \<Rightarrow> nat list" where
  "non_dirichlet bt = [p \<leftarrow> [0..<length bt]. bt ! p \<noteq> 1]"

text \<open>\<open>a[f] = v\<close> for an integer array \<open>f\<close> (in range) and one value \<open>v\<close>.\<close>

definition assign_at :: "'a list \<Rightarrow> nat list \<Rightarrow> 'a \<Rightarrow> 'a list" where
  "assign_at xs f v = map (\<lambda>i. if i \<in> set f then v else xs ! i) [0..<length xs]"

text \<open>\<open>a[f] = src[f]\<close>.\<close>

definition assign_from :: "'a list \<Rightarrow> nat list \<Rightarrow> 'a list \<Rightarrow> 'a list" where
  "assign_from xs f src = map (\<lambda>i. if i \<in> set f then src ! i else xs ! i) [0..<length xs]"

text \<open>The product of two one-dimensional arrays, with numpy's broadcasting.\<close>

definition np_multiply :: "real list \<Rightarrow> real list \<Rightarrow> error + real list" where
  "np_multiply xs ys =
     (if length xs = length ys then Inr (map2 (*) xs ys)
      else if length xs = 1 then Inr (map (\<lambda>y. hd xs * y) ys)
      else if length ys = 1 then Inr (map (\<lambda>x. x * hd ys) xs)
      else Inl ValueError)"

section \<open>The coefficient matrix builder\<close>

text \<open>Lines 132-134: a pore without the label internal and of kind 0 becomes kind 3.\<close>

definition default_insulated :: "network \<Rightarrow> nat list \<Rightarrow> nat list" where
  "default_insulated net bt =
     (let boundaries = [p \<leftarrow> pore_indices net. p \<notin> set (internal net)]
      in assign_at bt [p \<leftarrow> boundaries. bt ! p = 0] 3)"

text \<open>
  Lines 146-148: a conductance of size 1 (a number, or an array of one element) is
  multiplied with \<open>sp.ones(num_throats)\<close>; any other array is taken as it is.
\<close>

fun sp_size :: "cond_input \<Rightarrow> nat" where
  "sp_size (Scalar g) = 1"
| "sp_size (Array gs) = length gs"

fun times_ones :: "cond_input \<Rightarrow> nat \<Rightarrow> real list" where
  "times_ones (Scalar g) m = replicate m g"
| "times_ones (Array gs) m = replicate m (hd gs)"

definition broadcast_conductance :: "nat \<Rightarrow> cond_input \<Rightarrow> real list" where
  "broadcast_conductance m c =
     (if sp_size c = 1 then times_ones c m else (case c of Array gs \<Rightarrow> gs | Scalar g \<Rightarrow> [g]))"

text \<open>
  Lines 141-156: the two masks over the connections (first endpoint not Dirichlet,
  second endpoint not Dirichlet) and the triplets they select. Reading the conductance
  through a mask fails where the mask is true beyond the end of the array.
\<close>

definition loc1 :: "network \<Rightarrow> nat list \<Rightarrow> nat list" where
  "loc1 net bt = [t \<leftarrow> [0..<num_throats net]. fst (connections net ! t) \<in> set (non_dirichlet bt)]"

definition loc2 :: "network \<Rightarrow> nat list \<Rightarrow> nat list" where
  "loc2 net bt = [t \<leftarrow> [0..<num_throats net]. snd (connections net ! t) \<in> set (non_dirichlet bt)]"

definition conductance_entries ::
  "network \<Rightarrow> nat list \<Rightarrow> real list \<Rightarrow> error + (nat \<times> nat \<times> real) list" where
  "conductance_entries net bt data_main =
     (if \<not> (\<forall>t\<in>set (loc1 net bt). t < length data_main) then Inl IndexError
      else if \<not> (\<forall>t\<in>set (loc2 net bt). t < length data_main) then Inl IndexError
      else Inr (map (\<lambda>t. (fst (connections net ! t), snd (connections net ! t), data_main ! t))
                  (loc1 net bt)
              @ map (\<lambda>t. (snd (connections net ! t), fst (connections net ! t), data_main ! t))
                  (loc2 net bt)))"

text \<open>
  Lines 161-170: the flux pores and the sorted distinct flux values are fixed before the
  loop; each round selects the flux pores whose current value equals the round's value,
  asks the network for their neighbours, keeps the neighbours labelled internal, asks
  for the connecting throats, and overwrites kind and value of the selected pores.
\<close>

definition group_throats :: "network \<Rightarrow> nat list \<Rightarrow> error + nat list" where
  "group_throats net f =
     (let fn = find_neighbor_pores net f
      in if \<not> (\<forall>q\<in>set fn. q < num_pores net) then Inl IndexError
         else Inr (find_connecting_throat net f [q \<leftarrow> fn. q \<in> set (internal net)]))"

definition group_rate :: "network \<Rightarrow> real list \<Rightarrow> nat list \<Rightarrow> error + real" where
  "group_rate net bv f =
     (case group_throats net f of
        Inl e \<Rightarrow> Inl e
      | Inr ft \<Rightarrow>
          (case take_idx (cross_section net) ft of
             Inl e \<Rightarrow> Inl e
           | Inr areas \<Rightarrow>
               (case np_multiply (map ((!) bv) f) areas of
                  Inl e \<Rightarrow> Inl e
                | Inr prods \<Rightarrow> Inr (sum_list prods))))"

definition flux_group ::
  "network \<Rightarrow> nat list \<Rightarrow> real \<Rightarrow> nat list \<times> real list \<Rightarrow> error + nat list \<times> real list" where
  "flux_group net flux_pores v s =
     (let bt = fst s; bv = snd s;
          f = [p \<leftarrow> flux_pores. p \<in> set [q \<leftarrow> [0..<length bv]. bv ! q = v]]
      in (case group_rate net bv f of
            Inl e \<Rightarrow> Inl e
          | Inr r \<Rightarrow> Inr (assign_at bt f 4, assign_at bv f r)))"

fun flux_loop ::
  "network \<Rightarrow> nat list \<Rightarrow> real list \<Rightarrow> nat list \<times> real list \<Rightarrow> error + nat list \<times> real list" where
  "flux_loop net flux_pores [] s = Inr s"
| "flux_loop net flux_pores (v # vs) s =
     (case flux_group net flux_pores v s of
        Inl e \<Rightarrow> Inl e
      | Inr s' \<Rightarrow> flux_loop net flux_pores vs s')"

definition flux_conversion ::
  "network \<Rightarrow> nat list \<times> real list \<Rightarrow> error + nat list \<times> real list" where
  "flux_conversion net s =
     (if 2 \<in> set (fst s)
      then flux_loop net (kind_pores (fst s) 2)
             (unique (map ((!) (snd s)) (kind_pores (fst s) 2))) s
      else Inr s)"






text \<open>
  Lines 173-187: one superpore per distinct value of the kind-4 pores, numbered from the
  end of the matrix, and the two triplets that couple each pore of the class to it.
\<close>

definition neu_tpore2 :: "nat list \<Rightarrow> real list \<Rightarrow> real \<Rightarrow> nat list" where
  "neu_tpore2 bt bv v = [p \<leftarrow> kind_pores bt 4. bv ! p = v]"

definition superpore_entries ::
  "nat list \<Rightarrow> real list \<Rightarrow> real list \<Rightarrow> nat \<Rightarrow> real \<Rightarrow> (nat \<times> nat \<times> real) list" where
  "superpore_entries bt bv extera_neu A_dim g =
     concat (map (\<lambda>item.
         map (\<lambda>p. (p, A_dim - item - 1, g)) (neu_tpore2 bt bv (extera_neu ! item))
       @ map (\<lambda>p. (A_dim - item - 1, p, g)) (neu_tpore2 bt bv (extera_neu ! item)))
       [0..<length extera_neu])"

text \<open>Lines 200-204: the running negated row sums, Dirichlet rows counted as zero.\<close>

fun S_temp_loop :: "(nat \<times> nat \<times> real) list \<Rightarrow> real list \<Rightarrow> error + real list" where
  "S_temp_loop [] S = Inr S"
| "S_temp_loop (t # ts) S =
     (if row_of t < length S
      then S_temp_loop ts (S[row_of t := S ! row_of t - val_of t])
      else Inl IndexError)"

definition temp_data :: "nat list \<Rightarrow> (nat \<times> nat \<times> real) list \<Rightarrow> (nat \<times> nat \<times> real) list" where
  "temp_data dirs ts =
     map (\<lambda>t. (row_of t, col_of t, if row_of t \<in> set dirs then 0 else val_of t)) ts"

text \<open>
  Lines 194-210: the unit diagonal of the Dirichlet rows is already in \<open>ts\<close>; the
  closure adds, for every other row of the matrix, a diagonal triplet holding the
  negated sum of the row, and builds the matrix.
\<close>

definition diagonal_closure ::
  "nat list \<Rightarrow> (nat \<times> nat \<times> real) list \<Rightarrow> nat \<Rightarrow> error + coo" where
  "diagonal_closure dirs ts A_dim =
     (case S_temp_loop (temp_data dirs ts) (replicate A_dim 0) of
        Inl e \<Rightarrow> Inl e
      | Inr S_temp \<Rightarrow>
          let non_Dir = [r \<leftarrow> [0..<A_dim]. r \<notin> set dirs]
          in coo_matrix (ts @ map (\<lambda>r. (r, r, S_temp ! r)) non_Dir) A_dim)"

definition extera_of :: "nat list \<Rightarrow> real list \<Rightarrow> real list" where
  "extera_of bt bv = (if 4 \<in> set bt then unique (map ((!) bv) (kind_pores bt 4)) else [])"

definition build_coefficient_matrix :: "network \<Rightarrow> solver \<Rightarrow> error + coo \<times> solver" where
  "build_coefficient_matrix net st =
     (let bt1 = default_insulated net (BCtypes st);
          data_main = broadcast_conductance (num_throats net) (conductance st)
      in case conductance_entries net bt1 data_main of
           Inl e \<Rightarrow> Inl e
         | Inr T1 \<Rightarrow>
        (case flux_conversion net (bt1, BCvalues st) of
           Inl e \<Rightarrow> Inl e
         | Inr s2 \<Rightarrow>
             let bt2 = fst s2; bv2 = snd s2;
                 extera_neu = extera_of bt2 bv2;
                 A_dim = num_pores net + length extera_neu;
                 g = (if 4 \<in> set bt2 then 1 / 10 ^ 60 else g_super st);
                 T2 = T1 @ (if 4 \<in> set bt2
                            then superpore_entries bt2 bv2 extera_neu A_dim g else []);
                 dirs = kind_pores bt2 1;
                 T3 = T2 @ map (\<lambda>p. (p, p, 1)) dirs
             in (case diagonal_closure dirs T3 A_dim of
                   Inl e \<Rightarrow> Inl e
                 | Inr A \<Rightarrow>
                     Inr (A, st\<lparr> BCtypes := bt2, BCvalues := bv2,
                                conductance := Array data_main,
                                extera_Neumann_equations := extera_neu,
                                g_super := g,
                                Coeff_dimension := A_dim \<rparr>))))"

section \<open>The right-hand side, the solve and the rate\<close>

text \<open>
  Lines 216-229. When no kind-4 pore exists the source stores the number 0 in
  \<open>_extera_Neumann_equations\<close> and never reads it; the model stores the empty list.
\<close>

definition build_RHS_matrix :: "solver \<Rightarrow> real list" where
  "build_RHS_matrix st =
     (let extera_neu = extera_Neumann_equations st;
          A_dim = Coeff_dimension st;
          B0 = replicate A_dim 0;
          B1 = assign_from B0 (kind_pores (BCtypes st) 1) (BCvalues st);
          B2 = assign_from B1 (kind_pores (BCtypes st) 5) (BCvalues st)
      in if 4 \<in> set (BCtypes st)
         then fold (\<lambda>item B. B[A_dim - item - 1 := extera_neu ! item]) [0..<length extera_neu] B2
         else B2)"

text \<open>
  Lines 36-50. \<open>spsolve\<close> is scipy's sparse solver, a parameter here: it returns the
  solution or raises.
\<close>

definition no_bc_message :: string where
  "no_bc_message = ''No boundary condition has been applied to this network.''"

definition do_one_inner_iteration ::
  "(coo \<Rightarrow> real list \<Rightarrow> error + real list) \<Rightarrow> network \<Rightarrow> solver \<Rightarrow> error + real list \<times> solver" where
  "do_one_inner_iteration spsolve net st =
     (if \<forall>k\<in>set (BCtypes st). k = 0 then Inl (Exception no_bc_message)
      else
        (case build_coefficient_matrix net st of
           Inl e \<Rightarrow> Inl e
         | Inr (A, st1) \<Rightarrow>
             (case spsolve A (build_RHS_matrix st1) of
                Inl e \<Rightarrow> Inl e
              | Inr X \<Rightarrow>
                  if length X < num_pores net then Inl IndexError
                  else
                    let st2 = st1\<lparr> Neumann_super_X := drop (num_pores net) X,
                                   result := take (num_pores net) X \<rparr>
                    in Inr (result st2, st2))))"

text \<open>
  Modelled from the spec: the network methods \<open>find_neighbor_throats\<close> (called with
  \<open>flatten=True, mode='not_intersection'\<close>) and \<open>find_connected_pores\<close> are not part of
  the sources at hand. The spec's rate evaluator works on the "connections whose
  endpoints straddle the given node set": the throats with exactly one endpoint in the
  set, in throat order; the connected pores of a throat are its two endpoints.
\<close>

definition find_neighbor_throats :: "network \<Rightarrow> nat list \<Rightarrow> nat list" where
  "find_neighbor_throats net pores =
     [t \<leftarrow> [0..<num_throats net].
        (fst (connections net ! t) \<in> set pores) \<noteq> (snd (connections net ! t) \<in> set pores)]"

definition find_connected_pores :: "network \<Rightarrow> nat list \<Rightarrow> error + (nat \<times> nat) list" where
  "find_connected_pores net throats = take_idx (connections net) throats"

text \<open>
  Lines 231-248. An argument left at its default \<open>''\<close> is \<open>None\<close>. With \<open>pores\<close> left
  out, \<open>sp.in1d(p1,pores)\<close> is false everywhere; with both left out, \<open>p1\<close> is read
  before it is assigned. A conductance that is still a number cannot be indexed.
\<close>

definition rate :: "network \<Rightarrow> solver \<Rightarrow> nat list option \<Rightarrow> nat list option \<Rightarrow> error + real" where
  "rate net st pores throats =
     (case (case throats of
              Some ts \<Rightarrow> Some ts
            | None \<Rightarrow> (case pores of Some ps \<Rightarrow> Some (find_neighbor_throats net ps)
                                   | None \<Rightarrow> None)) of
        None \<Rightarrow> Inl UnboundLocalError
      | Some ts \<Rightarrow>
          (case find_connected_pores net ts of
             Inl e \<Rightarrow> Inl e
           | Inr p12 \<Rightarrow>
               let inside = (\<lambda>a. a \<in> set (case pores of Some ps \<Rightarrow> ps | None \<Rightarrow> []));
                   pores1 = map (\<lambda>c. if inside (fst c) then fst c else snd c) p12;
                   pores2 = map (\<lambda>c. if inside (fst c) then snd c else fst c) p12
               in (case take_idx (result st) pores1 of
                     Inl e \<Rightarrow> Inl e
                   | Inr X1 \<Rightarrow>
                  (case take_idx (result st) pores2 of
                     Inl e \<Rightarrow> Inl e
                   | Inr X2 \<Rightarrow>
                  (case conductance st of
                     Scalar g0 \<Rightarrow> Inl IndexError
                   | Array gs \<Rightarrow>
                       (case take_idx gs ts of
                          Inl e \<Rightarrow> Inl e
                        | Inr g \<Rightarrow> Inr (sum_list (map2 (*) g (map2 (-) X1 X2)))))))))"

text \<open>
  Lines 242-243 orient a throat by its first endpoint: if it lies in \<open>pores\<close> the first
  endpoint is the source and the second the sink, otherwise the other way round.
\<close>

definition source_pore :: "network \<Rightarrow> nat list \<Rightarrow> nat \<Rightarrow> nat" where
  "source_pore net A t =
     (if fst (connections net ! t) \<in> set A then fst (connections net ! t) else snd (connections net ! t))"

definition sink_pore :: "network \<Rightarrow> nat list \<Rightarrow> nat \<Rightarrow> nat" where
  "sink_pore net A t =
     (if fst (connections net ! t) \<in> set A then snd (connections net ! t) else fst (connections net ! t))"

section \<open>The effective property estimator\<close>


record alg_instance =
  pore_info :: "string \<rightharpoonup> nat list"
  pore_data :: "string \<rightharpoonup> (nat \<rightharpoonup> real)"
  attr_BCtypes :: "nat list option"
  attr_BCvalues :: "real list option"
  attr_dir :: "nat list option"
  attr_BCval_temp :: "(nat \<rightharpoonup> real) option"
  attr_BCtypes_temp :: "nat list option"
  attr_BCvalues_temp :: "real list option"


text \<open>
  Modelled from the spec: \<open>set_pore_info\<close> and \<open>set_pore_data\<close> belong to the base
  class, which is missing from the sources at hand. The spec has the estimator
  "override any existing Dirichlet assignment with two fixed potentials (high value on
  face1, low on face2)": with \<open>mode='overwrite'\<close> the label is put on exactly the given
  pores, without a mode the pores are added to the label; data given with locations is
  stored at these pores, data given without locations replaces the property.
\<close>

definition set_pore_info :: "alg_instance \<Rightarrow> string \<Rightarrow> nat list \<Rightarrow> bool \<Rightarrow> alg_instance" where
  "set_pore_info inst label locations overwrite =
     inst\<lparr> pore_info := (pore_info inst)(label \<mapsto>
       (if overwrite then locations
        else (case pore_info inst label of
                None \<Rightarrow> locations
              | Some old \<Rightarrow> old @ [p \<leftarrow> locations. p \<notin> set old]))) \<rparr>"

definition set_pore_data_at :: "alg_instance \<Rightarrow> string \<Rightarrow> real \<Rightarrow> nat list \<Rightarrow> alg_instance" where
  "set_pore_data_at inst prop data locations =
     inst\<lparr> pore_data := (pore_data inst)(prop \<mapsto>
       (\<lambda>p. if p \<in> set locations then Some data
            else (case pore_data inst prop of None \<Rightarrow> None | Some old \<Rightarrow> old p))) \<rparr>"












text \<open>The four temporaries of an instance, and the shape of a diagonal 3 by 3 tensor.\<close>

definition temps ::
  "alg_instance \<Rightarrow> nat list option \<times> (nat \<rightharpoonup> real) option \<times> nat list option \<times> real list option" where
  "temps inst = (attr_dir inst, attr_BCval_temp inst, attr_BCtypes_temp inst, attr_BCvalues_temp inst)"








section \<open>Concrete networks\<close>

text \<open>
  Modelled from the spec: the network methods \<open>find_neighbor_pores\<close> and
  \<open>find_connecting_throat\<close> are missing from the sources at hand. The spec speaks of
  "the group's neighbors" and "the connecting edges": the pores outside the group that
  share a throat with a pore of the group, and the throats that join a pore of the
  first list to a pore of the second. They are used for concrete networks only, and
  only where every pore of the group has neighbours of its own (so that the
  \<open>not_intersection\<close> mode of the source cannot matter).
\<close>

definition neighbor_pores :: "(nat \<times> nat) list \<Rightarrow> nat list \<Rightarrow> nat list" where
  "neighbor_pores cs f =
     sort (remdups ([snd c. c \<leftarrow> cs, fst c \<in> set f, snd c \<notin> set f]
                  @ [fst c. c \<leftarrow> cs, snd c \<in> set f, fst c \<notin> set f]))"

definition connecting_throats :: "(nat \<times> nat) list \<Rightarrow> nat list \<Rightarrow> nat list \<Rightarrow> nat list" where
  "connecting_throats cs P1 P2 =
     [t \<leftarrow> [0..<length cs].
        (fst (cs ! t) \<in> set P1 \<and> snd (cs ! t) \<in> set P2)
      \<or> (snd (cs ! t) \<in> set P1 \<and> fst (cs ! t) \<in> set P2)]"

definition make_network :: "nat \<Rightarrow> (nat \<times> nat) list \<Rightarrow> nat list \<Rightarrow> real list \<Rightarrow> network" where
  "make_network n cs intl areas =
     \<lparr> num_pores = n, connections = cs, internal = intl, cross_section = areas,
       find_neighbor_pores = neighbor_pores cs,
       find_connecting_throat = connecting_throats cs \<rparr>"

definition make_solver :: "nat list \<Rightarrow> real list \<Rightarrow> cond_input \<Rightarrow> solver" where
  "make_solver bt bv c =
     \<lparr> BCtypes = bt, BCvalues = bv, conductance = c, extera_Neumann_equations = [],
       g_super = 0, Coeff_dimension = 0, Neumann_super_X = [], result = [] \<rparr>"

text \<open>
  Four pores: 0 and 1 on the boundary with a flux condition each, 2 and 3 internal,
  3 held at a Dirichlet value; throats 0-2, 1-3 and 2-3.
\<close>

definition net4 :: network where
  "net4 = make_network 4 [(0, 2), (1, 3), (2, 3)] [2, 3] [2, 1, 1]"

definition solver4 :: solver where
  "solver4 = make_solver [2, 2, 0, 1] [1, 3, 0, 5] (Array [1, 1, 1])"

definition matrix4 :: coo where
  "matrix4 = \<lparr> triplets =
      [(0, 2, 1), (1, 3, 1), (2, 3, 1), (2, 0, 1),
       (0, 5, 1 / 10 ^ 60), (5, 0, 1 / 10 ^ 60), (1, 4, 1 / 10 ^ 60), (4, 1, 1 / 10 ^ 60),
       (3, 3, 1),
       (0, 0, - 1 - 1 / 10 ^ 60), (1, 1, - 1 - 1 / 10 ^ 60), (2, 2, - 2),
       (4, 4, - (1 / 10 ^ 60)), (5, 5, - (1 / 10 ^ 60))],
     dim = 6 \<rparr>"

definition solver4_built :: solver where
  "solver4_built = \<lparr> BCtypes = [4, 4, 0, 1], BCvalues = [2, 3, 0, 5],
       conductance = Array [1, 1, 1], extera_Neumann_equations = [2, 3],
       g_super = 1 / 10 ^ 60, Coeff_dimension = 6, Neumann_super_X = [], result = [] \<rparr>"

text \<open>
  Three pores in a row: 0 and 1 held at Dirichlet values and joined by a throat,
  2 on the boundary without a condition.
\<close>

definition net3 :: network where
  "net3 = make_network 3 [(0, 1), (1, 2)] [1] [1, 1]"

definition solver3 :: solver where
  "solver3 = make_solver [1, 1, 0] [5, 4, 0] (Scalar 2)"

definition matrix3 :: coo where
  "matrix3 = \<lparr> triplets = [(2, 1, 2), (0, 0, 1), (1, 1, 1), (2, 2, - 2)], dim = 3 \<rparr>"

definition solver3_built :: solver where
  "solver3_built = \<lparr> BCtypes = [1, 1, 3], BCvalues = [5, 4, 0],
       conductance = Array [2, 2], extera_Neumann_equations = [],
       g_super = 0, Coeff_dimension = 3, Neumann_super_X = [], result = [] \<rparr>"

text \<open>The same three pores with a one-element conductance array, and with a solved field.\<close>

definition solver3_short :: solver where
  "solver3_short = make_solver [1, 1, 0] [5, 4, 0] (Array [7])"

definition matrix3_short :: coo where
  "matrix3_short = \<lparr> triplets = [(2, 1, 7), (0, 0, 1), (1, 1, 1), (2, 2, - 7)], dim = 3 \<rparr>"

definition solver3_short_built :: solver where
  "solver3_short_built = \<lparr> BCtypes = [1, 1, 3], BCvalues = [5, 4, 0],
       conductance = Array [7, 7], extera_Neumann_equations = [],
       g_super = 0, Coeff_dimension = 3, Neumann_super_X = [], result = [] \<rparr>"

definition solver3_solved :: solver where
  "solver3_solved = (make_solver [1, 0, 1] [1, 0, 0] (Array [2, 2]))\<lparr> result := [1, 1 / 2, 0] \<rparr>"

text \<open>
  Two pores, both Dirichlet (1 and 0), one throat of conductance 2. The matrix is the
  identity, which \<open>solve_identity\<close> solves.
\<close>

definition solve_identity :: "coo \<Rightarrow> real list \<Rightarrow> error + real list" where
  "solve_identity A B = Inr B"

definition net2 :: network where
  "net2 = make_network 2 [(0, 1)] [] [1]"

definition solver2 :: solver where
  "solver2 = make_solver [1, 1] [1, 0] (Scalar 2)"

definition solver2_solved :: solver where
  "solver2_solved = \<lparr> BCtypes = [1, 1], BCvalues = [1, 0], conductance = Array [2],
       extera_Neumann_equations = [], g_super = 0, Coeff_dimension = 2,
       Neumann_super_X = [], result = [1, 0] \<rparr>"

definition solver2_unset :: solver where
  "solver2_unset = make_solver [0, 0] [0, 0] (Array [])"


section \<open>Theorems\<close>

subsection \<open>Sparse triplets and the diagonal closure\<close>

lemma ent_append: "ent (xs @ ys) r c = ent xs r c + ent ys r c"
  by (simp add: ent_def)


lemma ent_none: "\<forall>t\<in>set ts. \<not> (row_of t = r \<and> col_of t = c) \<Longrightarrow> ent ts r c = 0"
  by (induction ts) (auto simp: ent_def)

lemma row_total_none: "\<forall>t\<in>set ts. row_of t \<noteq> r \<Longrightarrow> row_total ts r = 0"
  by (induction ts) (auto simp: row_total_def)





lemma diagonal_closure_parts:
  assumes "diagonal_closure dirs ts n = Inr A"
  obtains S where "S_temp_loop (temp_data dirs ts) (replicate n 0) = Inr S"
    and "triplets A = ts @ map (\<lambda>r. (r, r, S ! r)) [r \<leftarrow> [0..<n]. r \<notin> set dirs]"
    and "dim A = n"
    and "\<forall>t\<in>set (triplets A). row_of t < n \<and> col_of t < n"
  using assms
  by (auto simp: diagonal_closure_def coo_matrix_def Let_def split: sum.splits if_splits)




subsection \<open>Frame of the flux loop and the parts of a successful build\<close>

lemma length_assign_at: "length (assign_at xs f v) = length xs"
  by (simp add: assign_at_def)

lemma nth_assign_at: "i < length xs \<Longrightarrow> assign_at xs f v ! i = (if i \<in> set f then v else xs ! i)"
  by (simp add: assign_at_def)

lemma set_kind_pores: "set (kind_pores bt k) = {p. p < length bt \<and> bt ! p = k}"
  by (auto simp: kind_pores_def)

lemma distinct_kind_pores: "distinct (kind_pores bt k)"
  by (simp add: kind_pores_def)

lemma length_default_insulated: "length (default_insulated net bt) = length bt"
  by (simp add: default_insulated_def length_assign_at)

lemma default_insulated_dirichlet:
  "p < length bt \<Longrightarrow> k \<noteq> 0 \<Longrightarrow> k \<noteq> 3 \<Longrightarrow> (default_insulated net bt ! p = k) = (bt ! p = k)"
  by (auto simp: default_insulated_def nth_assign_at)

lemma flux_group_frame:
  assumes "flux_group net fp v s = Inr s'"
  shows "length (fst s') = length (fst s) \<and> length (snd s') = length (snd s)
    \<and> (\<forall>p<length (fst s). fst s' ! p = fst s ! p \<or> (p \<in> set fp \<and> fst s' ! p = 4))
    \<and> (\<forall>p<length (snd s). p \<notin> set fp \<longrightarrow> snd s' ! p = snd s ! p)"
  using assms
  by (auto simp: flux_group_def Let_def length_assign_at nth_assign_at split: sum.splits if_splits)

lemma flux_loop_frame:
  assumes "flux_loop net fp vs s = Inr s'"
  shows "length (fst s') = length (fst s) \<and> length (snd s') = length (snd s)
    \<and> (\<forall>p<length (fst s). fst s' ! p = fst s ! p \<or> (p \<in> set fp \<and> fst s' ! p = 4))
    \<and> (\<forall>p<length (snd s). p \<notin> set fp \<longrightarrow> snd s' ! p = snd s ! p)"
  using assms
proof (induction vs arbitrary: s)
  case Nil
  then show ?case by simp
next
  case (Cons v vs)
  from Cons.prems obtain s1 where g: "flux_group net fp v s = Inr s1"
    and l: "flux_loop net fp vs s1 = Inr s'"
    by (auto split: sum.splits)
  from flux_group_frame [OF g] Cons.IH [OF l] show ?case
    by (metis (no_types, lifting))
qed

lemma flux_conversion_frame:
  assumes "flux_conversion net (bt, bv) = Inr (bt', bv')"
  shows "length bt' = length bt" and "length bv' = length bv"
    and "\<And>p. p < length bt \<Longrightarrow> bt' ! p = bt ! p \<or> (bt ! p = 2 \<and> bt' ! p = 4)"
    and "\<And>p. p < length bv \<Longrightarrow> \<not> (p < length bt \<and> bt ! p = 2) \<Longrightarrow> bv' ! p = bv ! p"
proof -
  have fr: "length bt' = length bt \<and> length bv' = length bv
    \<and> (\<forall>p<length bt. bt' ! p = bt ! p \<or> (p \<in> set (kind_pores bt 2) \<and> bt' ! p = 4))
    \<and> (\<forall>p<length bv. p \<notin> set (kind_pores bt 2) \<longrightarrow> bv' ! p = bv ! p)"
  proof (cases "2 \<in> set bt")
    case True
    with assms have "flux_loop net (kind_pores bt 2) (unique (map ((!) bv) (kind_pores bt 2))) (bt, bv)
        = Inr (bt', bv')"
      by (simp add: flux_conversion_def)
    from flux_loop_frame [OF this] show ?thesis by simp
  next
    case False
    with assms show ?thesis by (simp add: flux_conversion_def)
  qed
  show "length bt' = length bt" "length bv' = length bv" using fr by simp_all
  show "\<And>p. p < length bt \<Longrightarrow> bt' ! p = bt ! p \<or> (bt ! p = 2 \<and> bt' ! p = 4)"
    using fr by (auto simp: set_kind_pores)
  show "\<And>p. p < length bv \<Longrightarrow> \<not> (p < length bt \<and> bt ! p = 2) \<Longrightarrow> bv' ! p = bv ! p"
    using fr by (auto simp: set_kind_pores)
qed

lemma build_parts:
  assumes "build_coefficient_matrix net st = Inr (A, st')"
  obtains T1 :: "(nat \<times> nat \<times> real) list" where
    "conductance_entries net (default_insulated net (BCtypes st))
        (broadcast_conductance (num_throats net) (conductance st)) = Inr T1"
    and "flux_conversion net (default_insulated net (BCtypes st), BCvalues st)
        = Inr (BCtypes st', BCvalues st')"
    and "extera_Neumann_equations st' = extera_of (BCtypes st') (BCvalues st')"
    and "Coeff_dimension st' = num_pores net + length (extera_Neumann_equations st')"
    and "conductance st' = Array (broadcast_conductance (num_throats net) (conductance st))"
    and "diagonal_closure (kind_pores (BCtypes st') 1)
           ((T1 @ (if 4 \<in> set (BCtypes st')
                  then superpore_entries (BCtypes st') (BCvalues st')
                         (extera_Neumann_equations st') (Coeff_dimension st') (1 / 10 ^ 60)
                  else []))
            @ map (\<lambda>p. (p, p, 1)) (kind_pores (BCtypes st') 1))
           (Coeff_dimension st') = Inr A"
  using assms
  unfolding build_coefficient_matrix_def Let_def
  by (auto split: sum.splits if_splits)

lemma build_dirichlet_same:
  assumes "build_coefficient_matrix net st = Inr (A, st')"
  shows "set (kind_pores (BCtypes st') 1) = set (kind_pores (BCtypes st) 1)"
    and "length (BCtypes st') = length (BCtypes st)"
    and "length (BCvalues st') = length (BCvalues st)"
proof -
  from assms have
    f: "flux_conversion net (default_insulated net (BCtypes st), BCvalues st)
        = Inr (BCtypes st', BCvalues st')"
    by (rule build_parts [where ?thesis = "flux_conversion net (default_insulated net (BCtypes st), BCvalues st)
        = Inr (BCtypes st', BCvalues st')"])
  note fr = flux_conversion_frame [OF f]
  show "length (BCtypes st') = length (BCtypes st)"
    using fr(1) by (simp add: length_default_insulated)
  show "length (BCvalues st') = length (BCvalues st)"
    using fr(2) by simp
  have "\<And>p. p < length (BCtypes st) \<Longrightarrow> (BCtypes st' ! p = 1) = (BCtypes st ! p = 1)"
  proof -
    fix p assume p: "p < length (BCtypes st)"
    then have "BCtypes st' ! p = default_insulated net (BCtypes st) ! p
        \<or> (default_insulated net (BCtypes st) ! p = 2 \<and> BCtypes st' ! p = 4)"
      using fr(3) [of p] by (simp add: length_default_insulated)
    then have "(BCtypes st' ! p = 1) = (default_insulated net (BCtypes st) ! p = 1)"
      by auto
    then show "(BCtypes st' ! p = 1) = (BCtypes st ! p = 1)"
      using default_insulated_dirichlet [OF p, of 1 net] by simp
  qed
  then show "set (kind_pores (BCtypes st') 1) = set (kind_pores (BCtypes st) 1)"
    using fr(1) by (auto simp: set_kind_pores length_default_insulated)
qed

subsection \<open>Conservation rows\<close>



subsection \<open>Dirichlet rows\<close>

lemma conductance_entries_mem:
  assumes "conductance_entries net bt d = Inr T" and "t \<in> set T"
  shows "\<exists>x<length (connections net). row_of t \<in> set (non_dirichlet bt) \<and>
      ((row_of t = fst (connections net ! x) \<and> col_of t = snd (connections net ! x))
     \<or> (row_of t = snd (connections net ! x) \<and> col_of t = fst (connections net ! x)))"
proof -
  from assms have "t \<in> set (map (\<lambda>t. (fst (connections net ! t), snd (connections net ! t), d ! t))
                  (loc1 net bt))
      \<or> t \<in> set (map (\<lambda>t. (snd (connections net ! t), fst (connections net ! t), d ! t))
                  (loc2 net bt))"
    by (auto simp: conductance_entries_def split: if_splits)
  then show ?thesis
  proof
    assume "t \<in> set (map (\<lambda>t. (fst (connections net ! t), snd (connections net ! t), d ! t))
                  (loc1 net bt))"
    then obtain x where "x \<in> set (loc1 net bt)"
      and "t = (fst (connections net ! x), snd (connections net ! x), d ! x)"
      by auto
    then show ?thesis
      by (intro exI [of _ x]) (auto simp: loc1_def num_throats_def row_of_def col_of_def)
  next
    assume "t \<in> set (map (\<lambda>t. (snd (connections net ! t), fst (connections net ! t), d ! t))
                  (loc2 net bt))"
    then obtain x where "x \<in> set (loc2 net bt)"
      and "t = (snd (connections net ! x), fst (connections net ! x), d ! x)"
      by auto
    then show ?thesis
      by (intro exI [of _ x]) (auto simp: loc2_def num_throats_def row_of_def col_of_def)
  qed
qed

lemma conductance_entries_rows_cols:
  assumes "conductance_entries net bt d = Inr T" and "t \<in> set T"
  shows "row_of t \<in> set (non_dirichlet bt)"
    and "\<exists>c\<in>set (connections net). col_of t = fst c \<or> col_of t = snd c"
    and "\<exists>c\<in>set (connections net). row_of t = fst c \<or> row_of t = snd c"
proof -
  from conductance_entries_mem [OF assms] obtain x where x: "x < length (connections net)"
    and r: "row_of t \<in> set (non_dirichlet bt)"
    and rc: "(row_of t = fst (connections net ! x) \<and> col_of t = snd (connections net ! x))
     \<or> (row_of t = snd (connections net ! x) \<and> col_of t = fst (connections net ! x))"
    by blast
  from x have m: "connections net ! x \<in> set (connections net)" by simp
  show "row_of t \<in> set (non_dirichlet bt)" by (rule r)
  show "\<exists>c\<in>set (connections net). col_of t = fst c \<or> col_of t = snd c"
    using m rc by blast
  show "\<exists>c\<in>set (connections net). row_of t = fst c \<or> row_of t = snd c"
    using m rc by blast
qed

lemma set_non_dirichlet: "set (non_dirichlet bt) = {p. p < length bt \<and> bt ! p \<noteq> 1}"
  by (auto simp: non_dirichlet_def)

lemma distinct_neu_tpore2: "distinct (neu_tpore2 bt bv v)"
  by (simp add: neu_tpore2_def distinct_kind_pores)

lemma set_neu_tpore2: "set (neu_tpore2 bt bv v) = {p. p < length bt \<and> bt ! p = 4 \<and> bv ! p = v}"
  by (auto simp: neu_tpore2_def set_kind_pores)

lemma superpore_entries_rows_cols:
  assumes "t \<in> set (superpore_entries bt bv E n g)"
  shows "(row_of t < length bt \<and> bt ! row_of t = 4 \<and> (\<exists>item<length E. col_of t = n - item - 1))
       \<or> (col_of t < length bt \<and> bt ! col_of t = 4 \<and> (\<exists>item<length E. row_of t = n - item - 1))"
  using assms
  by (auto simp: superpore_entries_def set_neu_tpore2 row_of_def col_of_def)

lemma filter_row_diag:
  "distinct xs \<Longrightarrow>
     filter (\<lambda>t. row_of t = p) (map (\<lambda>q. (q, q, v q)) xs) = (if p \<in> set xs then [(p, p, v p)] else [])"
  by (induction xs) (auto simp: row_of_def)

lemma filter_none: "\<forall>t\<in>set ts. \<not> P t \<Longrightarrow> filter P ts = []"
  by (induction ts) auto

lemma ent_filter_row:
  "ent ts r c = sum_list (map val_of (filter (\<lambda>t. col_of t = c) (filter (\<lambda>t. row_of t = r) ts)))"
  by (simp add: ent_def conj_commute)

lemma fold_update_other:
  "\<forall>i\<in>set is. h i \<noteq> p \<Longrightarrow> fold (\<lambda>i B. B[h i := k i]) is B ! p = B ! p"
  by (induction "is" arbitrary: B) auto

lemma nth_assign_from:
  "i < length xs \<Longrightarrow> assign_from xs f src ! i = (if i \<in> set f then src ! i else xs ! i)"
  by (simp add: assign_from_def)

lemma length_assign_from: "length (assign_from xs f src) = length xs"
  by (simp add: assign_from_def)

lemma dirichlet_row:
  assumes b: "build_coefficient_matrix net st = Inr (A, st')"
    and lt: "length (BCtypes st) = num_pores net"
    and p: "p < num_pores net" and k: "BCtypes st ! p = 1"
  shows "filter (\<lambda>t. row_of t = p) (triplets A) = [(p, p, 1)]"
proof -
  let ?bt1 = "default_insulated net (BCtypes st)"
  let ?dirs = "kind_pores (BCtypes st') 1"
  let ?E = "extera_Neumann_equations st'"
  let ?n = "Coeff_dimension st'"
  from b obtain T1 :: "(nat \<times> nat \<times> real) list" where
    ce: "conductance_entries net ?bt1 (broadcast_conductance (num_throats net) (conductance st)) = Inr T1"
    and n: "?n = num_pores net + length ?E"
    and dc: "diagonal_closure ?dirs
           ((T1 @ (if 4 \<in> set (BCtypes st')
                  then superpore_entries (BCtypes st') (BCvalues st') ?E ?n (1 / 10 ^ 60)
                  else []))
            @ map (\<lambda>p. (p, p, 1)) ?dirs) ?n = Inr A"
    by (rule build_parts)
  from dc obtain S where
    T: "triplets A = ((T1 @ (if 4 \<in> set (BCtypes st')
                  then superpore_entries (BCtypes st') (BCvalues st') ?E ?n (1 / 10 ^ 60)
                  else []))
            @ map (\<lambda>p. (p, p, 1)) ?dirs) @ map (\<lambda>r. (r, r, S ! r)) [r \<leftarrow> [0..<?n]. r \<notin> set ?dirs]"
    by (rule diagonal_closure_parts)
  have len': "length (BCtypes st') = num_pores net"
    using build_dirichlet_same(2) [OF b] lt by simp
  have "p \<in> set (kind_pores (BCtypes st) 1)"
    using p k lt by (simp add: set_kind_pores)
  then have pd: "p \<in> set ?dirs"
    unfolding build_dirichlet_same(1) [OF b] .
  then have k': "BCtypes st' ! p = 1"
    by (simp add: set_kind_pores)
  have "?bt1 ! p = 1"
    using default_insulated_dirichlet [of p "BCtypes st" 1 net] p k lt by simp
  then have "p \<notin> set (non_dirichlet ?bt1)"
    by (simp add: set_non_dirichlet)
  then have f1: "filter (\<lambda>t. row_of t = p) T1 = []"
    using conductance_entries_rows_cols(1) [OF ce] by (intro filter_none) auto
  have f2: "filter (\<lambda>t. row_of t = p)
      (superpore_entries (BCtypes st') (BCvalues st') ?E ?n (1 / 10 ^ 60)) = []"
  proof (intro filter_none ballI notI)
    fix t assume t: "t \<in> set (superpore_entries (BCtypes st') (BCvalues st') ?E ?n (1 / 10 ^ 60))"
      and r: "row_of t = p"
    from superpore_entries_rows_cols [OF t] show False
    proof
      assume "row_of t < length (BCtypes st') \<and> BCtypes st' ! row_of t = 4
          \<and> (\<exists>item<length ?E. col_of t = ?n - item - 1)"
      with r k' show False by simp
    next
      assume "col_of t < length (BCtypes st') \<and> BCtypes st' ! col_of t = 4
          \<and> (\<exists>item<length ?E. row_of t = ?n - item - 1)"
      then obtain item where "item < length ?E" "row_of t = ?n - item - 1" by blast
      with n r p show False by simp
    qed
  qed
  have f3: "filter (\<lambda>t. row_of t = p) (map (\<lambda>q. (q, q, 1::real)) ?dirs) = [(p, p, 1)]"
    using filter_row_diag [OF distinct_kind_pores, of p "\<lambda>q. 1" "BCtypes st'" 1] pd by simp
  have f4: "filter (\<lambda>t. row_of t = p)
      (map (\<lambda>r. (r, r, S ! r)) [r \<leftarrow> [0..<?n]. r \<notin> set ?dirs]) = []"
    using pd by (intro filter_none) (auto simp: row_of_def)
  show ?thesis
    unfolding T using f1 f2 f3 f4 by simp
qed

lemma dirichlet_row_entries:
  assumes "filter (\<lambda>t. row_of t = p) (triplets A) = [(p, p, 1)]"
  shows "entry A p c = (if c = p then 1 else 0)"
  unfolding entry_def ent_filter_row assms
  by (simp add: col_of_def val_of_def)

lemma dirichlet_rhs:
  assumes b: "build_coefficient_matrix net st = Inr (A, st')"
    and lt: "length (BCtypes st) = num_pores net"
    and lv: "length (BCvalues st) = num_pores net"
    and p: "p < num_pores net" and k: "BCtypes st ! p = 1"
  shows "build_RHS_matrix st' ! p = BCvalues st ! p"
proof -
  let ?bt1 = "default_insulated net (BCtypes st)"
  let ?E = "extera_Neumann_equations st'"
  let ?n = "Coeff_dimension st'"
  from b obtain T1 :: "(nat \<times> nat \<times> real) list" where
    fc: "flux_conversion net (?bt1, BCvalues st) = Inr (BCtypes st', BCvalues st')"
    and n: "?n = num_pores net + length ?E"
    by (rule build_parts)
  have "p \<in> set (kind_pores (BCtypes st) 1)"
    using p k lt by (simp add: set_kind_pores)
  then have pd: "p \<in> set (kind_pores (BCtypes st') 1)"
    unfolding build_dirichlet_same(1) [OF b] .
  then have p5: "p \<notin> set (kind_pores (BCtypes st') 5)"
    by (simp add: set_kind_pores)
  have "?bt1 ! p = 1"
    using default_insulated_dirichlet [of p "BCtypes st" 1 net] p k lt by simp
  then have v: "BCvalues st' ! p = BCvalues st ! p"
    using flux_conversion_frame(4) [OF fc, of p] p lv by simp
  have pn: "p < ?n" using p n by simp
  let ?B2 = "assign_from (assign_from (replicate ?n 0) (kind_pores (BCtypes st') 1) (BCvalues st'))
      (kind_pores (BCtypes st') 5) (BCvalues st')"
  have B2: "?B2 ! p = BCvalues st' ! p"
    using pn pd p5 by (simp add: nth_assign_from length_assign_from)
  have "fold (\<lambda>item B. B[?n - item - 1 := ?E ! item]) [0..<length ?E] ?B2 ! p = ?B2 ! p"
    using n p by (intro fold_update_other) auto
  with B2 v show ?thesis
    by (simp add: build_RHS_matrix_def Let_def)
qed


text \<open>
  C2. Whenever the matrix is built from a registry of the network's size, the row of
  every Dirichlet pore holds exactly one triplet, the unit diagonal: the entry is 1 on
  the diagonal and 0 everywhere else, and the right-hand side of that row is the pore's
  Dirichlet value. In particular, for a connection whose two endpoints are both
  Dirichlet, the only triplets in the rows of its endpoints are those unit diagonals:
  the connection contributes nothing in either direction.
\<close>

theorem dirichlet_identity_rows:
  assumes "build_coefficient_matrix net st = Inr (A, st')"
    and "length (BCtypes st) = num_pores net"
    and "length (BCvalues st) = num_pores net"
  shows "(\<forall>p<num_pores net. BCtypes st ! p = 1 \<longrightarrow>
            filter (\<lambda>t. row_of t = p) (triplets A) = [(p, p, 1)]
          \<and> (\<forall>c. entry A p c = (if c = p then 1 else 0))
          \<and> build_RHS_matrix st' ! p = BCvalues st ! p)
       \<and> (\<forall>c\<in>set (connections net).
            fst c < num_pores net \<and> snd c < num_pores net
            \<and> BCtypes st ! fst c = 1 \<and> BCtypes st ! snd c = 1 \<longrightarrow>
            (\<forall>t\<in>set (triplets A). row_of t = fst c \<or> row_of t = snd c \<longrightarrow>
               t = (row_of t, row_of t, 1)))"
proof (intro conjI allI impI ballI)
  fix p assume p: "p < num_pores net" "BCtypes st ! p = 1"
  note row = dirichlet_row [OF assms(1,2) p]
  show "filter (\<lambda>t. row_of t = p) (triplets A) = [(p, p, 1)]" by (rule row)
  show "build_RHS_matrix st' ! p = BCvalues st ! p"
    by (rule dirichlet_rhs [OF assms p])
  fix c show "entry A p c = (if c = p then 1 else 0)"
    by (rule dirichlet_row_entries [OF row])
next
  fix c t
  assume c: "fst c < num_pores net \<and> snd c < num_pores net
            \<and> BCtypes st ! fst c = 1 \<and> BCtypes st ! snd c = 1"
    and t: "t \<in> set (triplets A)" and r: "row_of t = fst c \<or> row_of t = snd c"
  from c r have "row_of t < num_pores net" "BCtypes st ! row_of t = 1" by auto
  from dirichlet_row [OF assms(1,2) this]
  have "filter (\<lambda>u. row_of u = row_of t) (triplets A) = [(row_of t, row_of t, 1)]" .
  moreover have "t \<in> set (filter (\<lambda>u. row_of u = row_of t) (triplets A))"
    using t by simp
  ultimately show "t = (row_of t, row_of t, 1)" by simp
qed

theorem dirichlet_identity_rows_witness:
  "build_coefficient_matrix net3 solver3 = Inr (matrix3, solver3_built)
   \<and> length (BCtypes solver3) = num_pores net3
   \<and> length (BCvalues solver3) = num_pores net3
   \<and> filter (\<lambda>t. row_of t = 0) (triplets matrix3) = [(0, 0, 1)]
   \<and> entry matrix3 0 1 = 0
   \<and> build_RHS_matrix solver3_built ! 0 = 5
   \<and> (0, 1) \<in> set (connections net3)
   \<and> list_all (\<lambda>t. t = (row_of t, row_of t, 1))
        (filter (\<lambda>t. row_of t = 0 \<or> row_of t = 1) (triplets matrix3))"
proof -
  have b: "build_coefficient_matrix net3 solver3 = Inr (matrix3, solver3_built)"
    by code_simp
  have l: "length (BCtypes solver3) = num_pores net3" "length (BCvalues solver3) = num_pores net3"
    by (simp_all add: solver3_def net3_def make_solver_def make_network_def)
  note th = dirichlet_identity_rows [OF b l]
  have p: "0 < num_pores net3" "BCtypes solver3 ! 0 = 1"
    by (simp_all add: solver3_def net3_def make_solver_def make_network_def)
  have c: "(0, 1) \<in> set (connections net3)"
    "fst (0 :: nat, 1 :: nat) < num_pores net3 \<and> snd (0 :: nat, 1 :: nat) < num_pores net3
       \<and> BCtypes solver3 ! fst (0 :: nat, 1 :: nat) = 1 \<and> BCtypes solver3 ! snd (0 :: nat, 1 :: nat) = 1"
    by (simp_all add: solver3_def net3_def make_solver_def make_network_def)
  from th p have r: "filter (\<lambda>t. row_of t = 0) (triplets matrix3) = [(0, 0, 1)]
      \<and> (\<forall>c. entry matrix3 0 c = (if c = 0 then 1 else 0))
      \<and> build_RHS_matrix solver3_built ! 0 = BCvalues solver3 ! 0"
    by blast
  then have e: "entry matrix3 0 1 = 0" by simp
  have v: "BCvalues solver3 ! 0 = 5"
    by (simp add: solver3_def make_solver_def)
  from th c have d: "\<forall>t\<in>set (triplets matrix3).
      row_of t = fst (0 :: nat, 1 :: nat) \<or> row_of t = snd (0 :: nat, 1 :: nat) \<longrightarrow> t = (row_of t, row_of t, 1)"
    by blast
  have "\<forall>t\<in>set (triplets matrix3). row_of t = 0 \<or> row_of t = 1 \<longrightarrow> t = (row_of t, row_of t, 1)"
    using d by (simp only: fst_conv snd_conv)
  then have d': "list_all (\<lambda>t. t = (row_of t, row_of t, 1))
        (filter (\<lambda>t. row_of t = 0 \<or> row_of t = 1) (triplets matrix3))"
    unfolding list_all_iff set_filter by blast
  from b l r e v c(1) d' show ?thesis by simp
qed

subsection \<open>Superpores\<close>

lemma ent_concat: "ent (concat xss) r c = sum_list (map (\<lambda>xs. ent xs r c) xss)"
  by (induction xss) (simp_all add: ent_def)

lemma ent_map_row:
  "distinct qs \<Longrightarrow> ent (map (\<lambda>q. (q, s, g)) qs) r c = (if r \<in> set qs \<and> c = s then g else 0)"
  by (induction qs) (auto simp: ent_def row_of_def col_of_def val_of_def)

lemma ent_map_col:
  "distinct qs \<Longrightarrow> ent (map (\<lambda>q. (s, q, g)) qs) r c = (if r = s \<and> c \<in> set qs then g else 0)"
  by (induction qs) (auto simp: ent_def row_of_def col_of_def val_of_def)

lemma sum_list_delta_upt:
  "i < n \<Longrightarrow> sum_list (map (\<lambda>j. if j = i then (x::real) else 0) [0..<n]) = x"
  by (simp add: interv_sum_list_conv_sum_set_nat)

lemma ent_superpore_entries:
  assumes "item < length E" and "n = N + length E" and "p < N" and "length bt = N"
  shows "ent (superpore_entries bt bv E n g) p (n - item - 1)
        = (if bt ! p = 4 \<and> bv ! p = E ! item then g else 0)"
    and "ent (superpore_entries bt bv E n g) (n - item - 1) p
        = (if bt ! p = 4 \<and> bv ! p = E ! item then g else 0)"
proof -
  have inj: "\<And>j. j < length E \<Longrightarrow> (n - item - 1 = n - j - 1) = (j = item)"
    using assms(1,2) by auto
  have ne: "\<And>j. j < length E \<Longrightarrow> p \<noteq> n - j - 1"
    using assms(2,3) by auto
  have nm: "\<And>j. j < length E \<Longrightarrow> n - j - 1 \<notin> set (neu_tpore2 bt bv (E ! j))"
    using assms(2,4) by (auto simp: set_neu_tpore2)
  have nm': "\<And>j. j < length E \<Longrightarrow> n - item - 1 \<notin> set (neu_tpore2 bt bv (E ! j))"
    using assms(1,2,4) by (auto simp: set_neu_tpore2)
  have "ent (superpore_entries bt bv E n g) p (n - item - 1)
      = sum_list (map (\<lambda>j. if j = item then (if bt ! p = 4 \<and> bv ! p = E ! item then g else 0) else 0)
          [0..<length E])"
    unfolding superpore_entries_def ent_concat map_map comp_def
    by (rule arg_cong [where f = sum_list], rule map_cong [OF refl])
      (use inj ne nm' assms(3,4) in
        \<open>auto simp: ent_append ent_map_row ent_map_col distinct_neu_tpore2 set_neu_tpore2\<close>)
  then show "ent (superpore_entries bt bv E n g) p (n - item - 1)
        = (if bt ! p = 4 \<and> bv ! p = E ! item then g else 0)"
    using assms(1) by (simp only: sum_list_delta_upt)
  have "ent (superpore_entries bt bv E n g) (n - item - 1) p
      = sum_list (map (\<lambda>j. if j = item then (if bt ! p = 4 \<and> bv ! p = E ! item then g else 0) else 0)
          [0..<length E])"
    unfolding superpore_entries_def ent_concat map_map comp_def
    by (rule arg_cong [where f = sum_list], rule map_cong [OF refl])
      (use inj ne nm' assms(3,4) in
        \<open>auto simp: ent_append ent_map_row ent_map_col distinct_neu_tpore2 set_neu_tpore2\<close>)
  then show "ent (superpore_entries bt bv E n g) (n - item - 1) p
        = (if bt ! p = 4 \<and> bv ! p = E ! item then g else 0)"
    using assms(1) by (simp only: sum_list_delta_upt)
qed

lemma unique_props: "distinct (unique xs)" "set (unique xs) = set xs" "length (unique xs) = card (set xs)"
proof -
  show "distinct (unique xs)" "set (unique xs) = set xs" by (simp_all add: unique_def)
  have "length (unique xs) = length (remdups xs)" by (simp add: unique_def)
  then show "length (unique xs) = card (set xs)" by (simp add: length_remdups_card_conv)
qed

lemma extera_of_unique: "extera_of bt bv = unique (map ((!) bv) (kind_pores bt 4))"
proof (cases "4 \<in> set bt")
  case True
  then show ?thesis by (simp add: extera_of_def)
next
  case False
  have "\<And>x. x < length bt \<Longrightarrow> bt ! x \<noteq> 4"
    using False nth_mem by metis
  then have "kind_pores bt 4 = []"
    by (simp add: kind_pores_def filter_empty_conv)
  with False show ?thesis by (simp add: extera_of_def unique_def)
qed


text \<open>
  C4. Whenever the matrix is built (registry of the network's size, throat endpoints
  among the pores), its dimension is the number of pores plus the number of distinct
  values carried by the kind-4 pores of the registry as the builder leaves it (flux
  pores converted); the stored list of those values is duplicate-free, one superpore
  row/column \<open>dim - item - 1\<close> per value; the entry between a pore and a superpore is
  1e-60 in both directions exactly when the pore is of kind 4 and carries the
  superpore's value, and 0 otherwise; without kind-4 pores the dimension is the number
  of pores and no triplet lies outside the pores' rows and columns.
\<close>

theorem superpore_allocation:
  assumes b: "build_coefficient_matrix net st = Inr (A, st')"
    and lt: "length (BCtypes st) = num_pores net"
    and lv: "length (BCvalues st) = num_pores net"
    and wf: "\<forall>c\<in>set (connections net). fst c < num_pores net \<and> snd c < num_pores net"
  shows "dim A = num_pores net
           + card {BCvalues st' ! p |p. p < num_pores net \<and> BCtypes st' ! p = 4}
       \<and> distinct (extera_Neumann_equations st')
       \<and> set (extera_Neumann_equations st')
           = {BCvalues st' ! p |p. p < num_pores net \<and> BCtypes st' ! p = 4}
       \<and> dim A = num_pores net + length (extera_Neumann_equations st')
       \<and> (\<forall>p<num_pores net. \<forall>item<length (extera_Neumann_equations st').
            entry A p (dim A - item - 1)
              = (if BCtypes st' ! p = 4 \<and> BCvalues st' ! p = extera_Neumann_equations st' ! item
                 then 1 / 10 ^ 60 else 0)
          \<and> entry A (dim A - item - 1) p
              = (if BCtypes st' ! p = 4 \<and> BCvalues st' ! p = extera_Neumann_equations st' ! item
                 then 1 / 10 ^ 60 else 0))
       \<and> ((\<forall>p<num_pores net. BCtypes st' ! p \<noteq> 4) \<longrightarrow>
            dim A = num_pores net \<and> (\<forall>t\<in>set (triplets A). row_of t < num_pores net
                                                        \<and> col_of t < num_pores net))"
proof -
  let ?bt1 = "default_insulated net (BCtypes st)"
  let ?dirs = "kind_pores (BCtypes st') 1"
  let ?E = "extera_Neumann_equations st'"
  let ?n = "Coeff_dimension st'"
  let ?N = "num_pores net"
  let ?SP = "if 4 \<in> set (BCtypes st')
                  then superpore_entries (BCtypes st') (BCvalues st') ?E ?n (1 / 10 ^ 60)
                  else []"
  let ?V = "{BCvalues st' ! p |p. p < ?N \<and> BCtypes st' ! p = 4}"
  from b obtain T1 :: "(nat \<times> nat \<times> real) list" where
    ce: "conductance_entries net ?bt1 (broadcast_conductance (num_throats net) (conductance st)) = Inr T1"
    and E: "?E = extera_of (BCtypes st') (BCvalues st')"
    and n: "?n = ?N + length ?E"
    and dc: "diagonal_closure ?dirs ((T1 @ ?SP) @ map (\<lambda>p. (p, p, 1)) ?dirs) ?n = Inr A"
    by (rule build_parts)
  from dc obtain S where
    T: "triplets A = ((T1 @ ?SP) @ map (\<lambda>p. (p, p, 1)) ?dirs)
          @ map (\<lambda>r. (r, r, S ! r)) [r \<leftarrow> [0..<?n]. r \<notin> set ?dirs]"
    and d: "dim A = ?n"
    and rng: "\<forall>t\<in>set (triplets A). row_of t < ?n \<and> col_of t < ?n"
    by (rule diagonal_closure_parts)
  have len': "length (BCtypes st') = ?N"
    using build_dirichlet_same(2) [OF b] lt by simp
  have Eu: "?E = unique (map ((!) (BCvalues st')) (kind_pores (BCtypes st') 4))"
    using E by (simp add: extera_of_unique)
  have V: "set (map ((!) (BCvalues st')) (kind_pores (BCtypes st') 4)) = ?V"
    using len' by (auto simp: set_kind_pores)
  have dist: "distinct ?E" and setE: "set ?E = ?V" and lenE: "length ?E = card ?V"
    using unique_props [of "map ((!) (BCvalues st')) (kind_pores (BCtypes st') 4)"] V
    by (simp_all add: Eu)
  have dimE: "dim A = ?N + length ?E" using d n by simp
  have coupling: "entry A p (dim A - item - 1)
              = (if BCtypes st' ! p = 4 \<and> BCvalues st' ! p = ?E ! item then 1 / 10 ^ 60 else 0)
          \<and> entry A (dim A - item - 1) p
              = (if BCtypes st' ! p = 4 \<and> BCvalues st' ! p = ?E ! item then 1 / 10 ^ 60 else 0)"
    if p: "p < ?N" and item: "item < length ?E" for p item
  proof -
    let ?s = "?n - item - 1"
    have s: "?N \<le> ?s" "?s < ?n" "p \<noteq> ?s" using n p item by auto
    have T1z: "ent T1 p ?s = 0" "ent T1 ?s p = 0"
    proof -
      show "ent T1 p ?s = 0"
      proof (rule ent_none, intro ballI notI)
        fix t assume t: "t \<in> set T1" and rc: "row_of t = p \<and> col_of t = ?s"
        from conductance_entries_rows_cols(2) [OF ce t] wf have "col_of t < ?N" by auto
        with rc s show False by simp
      qed
      show "ent T1 ?s p = 0"
      proof (rule ent_none, intro ballI notI)
        fix t assume t: "t \<in> set T1" and rc: "row_of t = ?s \<and> col_of t = p"
        from conductance_entries_rows_cols(3) [OF ce t] wf have "row_of t < ?N" by auto
        with rc s show False by simp
      qed
    qed
    have Dz: "ent (map (\<lambda>p. (p, p, 1::real)) ?dirs) p ?s = 0"
      "ent (map (\<lambda>p. (p, p, 1::real)) ?dirs) ?s p = 0"
      using s by (auto intro!: ent_none simp: row_of_def col_of_def)
    have Cz: "ent (map (\<lambda>r. (r, r, S ! r)) [r \<leftarrow> [0..<?n]. r \<notin> set ?dirs]) p ?s = 0"
      "ent (map (\<lambda>r. (r, r, S ! r)) [r \<leftarrow> [0..<?n]. r \<notin> set ?dirs]) ?s p = 0"
      using s by (auto intro!: ent_none simp: row_of_def col_of_def)
    have any4: "4 \<in> set (BCtypes st')"
    proof -
      from item have "?E \<noteq> []" by auto
      then show ?thesis using E by (auto simp: extera_of_def split: if_splits)
    qed
    have SPv: "ent ?SP p ?s = (if BCtypes st' ! p = 4 \<and> BCvalues st' ! p = ?E ! item then 1 / 10 ^ 60 else 0)"
      "ent ?SP ?s p = (if BCtypes st' ! p = 4 \<and> BCvalues st' ! p = ?E ! item then 1 / 10 ^ 60 else 0)"
      using ent_superpore_entries [OF item n p len', of "BCvalues st'" "1 / 10 ^ 60"] any4
      by simp_all
    show ?thesis
      unfolding entry_def T d ent_append using T1z Dz Cz SPv by simp
  qed
  have none4: "dim A = ?N \<and> (\<forall>t\<in>set (triplets A). row_of t < ?N \<and> col_of t < ?N)"
    if "\<forall>p<?N. BCtypes st' ! p \<noteq> 4"
  proof -
    from that have "?V = {}" by auto
    with lenE have "length ?E = 0" by simp
    with dimE n d rng show ?thesis by simp
  qed
  show ?thesis
    using dimE lenE dist setE coupling none4 by simp
qed

theorem superpore_allocation_witness:
  "build_coefficient_matrix net4 solver4 = Inr (matrix4, solver4_built)
   \<and> length (BCtypes solver4) = num_pores net4
   \<and> length (BCvalues solver4) = num_pores net4
   \<and> list_all (\<lambda>c. fst c < num_pores net4 \<and> snd c < num_pores net4) (connections net4)
   \<and> dim matrix4 = 4 + 2
   \<and> entry matrix4 0 5 = 1 / 10 ^ 60 \<and> entry matrix4 5 0 = 1 / 10 ^ 60
   \<and> entry matrix4 0 4 = 0 \<and> entry matrix4 4 0 = 0"
proof -
  have b: "build_coefficient_matrix net4 solver4 = Inr (matrix4, solver4_built)"
    by code_simp
  have l: "length (BCtypes solver4) = num_pores net4" "length (BCvalues solver4) = num_pores net4"
    by (simp_all add: solver4_def net4_def make_solver_def make_network_def)
  have w: "\<forall>c\<in>set (connections net4). fst c < num_pores net4 \<and> snd c < num_pores net4"
    by (simp add: net4_def make_network_def)
  note th = superpore_allocation [OF b l w]
  have n: "num_pores net4 = 4" "length (extera_Neumann_equations solver4_built) = 2"
    "dim matrix4 = 6"
    by (simp_all add: net4_def make_network_def solver4_built_def matrix4_def)
  from th have "\<forall>p<num_pores net4. \<forall>item<length (extera_Neumann_equations solver4_built).
            entry matrix4 p (dim matrix4 - item - 1)
              = (if BCtypes solver4_built ! p = 4
                    \<and> BCvalues solver4_built ! p = extera_Neumann_equations solver4_built ! item
                 then 1 / 10 ^ 60 else 0)
          \<and> entry matrix4 (dim matrix4 - item - 1) p
              = (if BCtypes solver4_built ! p = 4
                    \<and> BCvalues solver4_built ! p = extera_Neumann_equations solver4_built ! item
                 then 1 / 10 ^ 60 else 0)"
    by blast
  then have c: "\<forall>item<2. entry matrix4 0 (6 - item - 1)
              = (if BCtypes solver4_built ! 0 = 4
                    \<and> BCvalues solver4_built ! 0 = extera_Neumann_equations solver4_built ! item
                 then 1 / 10 ^ 60 else 0)
          \<and> entry matrix4 (6 - item - 1) 0
              = (if BCtypes solver4_built ! 0 = 4
                    \<and> BCvalues solver4_built ! 0 = extera_Neumann_equations solver4_built ! item
                 then 1 / 10 ^ 60 else 0)"
    unfolding n by simp
  from c [rule_format, of 0] have e5: "entry matrix4 0 5 = 1 / 10 ^ 60 \<and> entry matrix4 5 0 = 1 / 10 ^ 60"
    by (simp add: solver4_built_def)
  from c [rule_format, of 1] have e4: "entry matrix4 0 4 = 0 \<and> entry matrix4 4 0 = 0"
    by (simp add: solver4_built_def)
  from b l w n e5 e4 show ?thesis by (simp add: list_all_iff)
qed

subsection \<open>Flux conditions become rate conditions\<close>










text \<open>
  A converted rate that equals the flux value of a later round is selected again: with
  fluxes 1 and 2 and cross-sections 2 and 1 both groups have the rate 2, and both pores
  end with 6. The theorem below leaves this case out.
\<close>

lemma flux_rate_collision_example:
  "flux_conversion net4 ([2, 2, 0, 1], [1, 2, 0, 5]) = Inr ([4, 4, 0, 1], [6, 6, 0, 5])
   \<and> group_rate net4 [1, 2, 0, 5] [0] = Inr 2
   \<and> group_rate net4 [1, 2, 0, 5] [1] = Inr 2"
  by code_simp



subsection \<open>The solve without boundary conditions\<close>

text \<open>
  C5. If every entry of the kind array is 0, one solve fails with the exception "No
  boundary condition has been applied to this network." (the spec's ConfigurationError),
  whatever the network, the conductance and the solver are: the test comes before the
  matrix and the right-hand side. Otherwise the matrix is built, an error of the build
  or of the sparse solver is the error of the solve, and a solution of at least
  num_pores entries is split into the pores' values and the superpores' values.
\<close>

theorem no_boundary_condition:
  "((\<forall>k\<in>set (BCtypes st). k = 0) \<longrightarrow>
      do_one_inner_iteration spsolve net st = Inl (Exception no_bc_message))
   \<and> (\<not> (\<forall>k\<in>set (BCtypes st). k = 0) \<longrightarrow>
        (\<forall>e. build_coefficient_matrix net st = Inl e \<longrightarrow>
           do_one_inner_iteration spsolve net st = Inl e)
      \<and> (\<forall>A st1. build_coefficient_matrix net st = Inr (A, st1) \<longrightarrow>
           (\<forall>e. spsolve A (build_RHS_matrix st1) = Inl e \<longrightarrow>
              do_one_inner_iteration spsolve net st = Inl e)
         \<and> (\<forall>X. spsolve A (build_RHS_matrix st1) = Inr X \<and> num_pores net \<le> length X \<longrightarrow>
              do_one_inner_iteration spsolve net st =
                Inr (take (num_pores net) X,
                     st1\<lparr> Neumann_super_X := drop (num_pores net) X,
                          result := take (num_pores net) X \<rparr>))))"
  by (auto simp: do_one_inner_iteration_def Let_def)

theorem no_boundary_condition_witness:
  "BCtypes solver2_unset = [0, 0]
   \<and> do_one_inner_iteration solve_identity net2 solver2_unset = Inl (Exception no_bc_message)
   \<and> build_coefficient_matrix net2 solver2_unset = Inl IndexError
   \<and> \<not> (\<forall>k\<in>set (BCtypes solver2). k = 0)
   \<and> do_one_inner_iteration solve_identity net2 solver2 = Inr ([1, 0], solver2_solved)"
proof -
  have z: "\<forall>k\<in>set (BCtypes solver2_unset). k = 0"
    by (simp add: solver2_unset_def make_solver_def)
  have nz: "\<not> (\<forall>k\<in>set (BCtypes solver2). k = 0)"
    by (simp add: solver2_def make_solver_def)
  have b0: "build_coefficient_matrix net2 solver2_unset = Inl IndexError"
    by code_simp
  have b: "build_coefficient_matrix net2 solver2
      = Inr (\<lparr> triplets = [(0, 0, 1), (1, 1, 1)], dim = 2 \<rparr>,
             solver2_solved\<lparr> result := [] \<rparr>)"
    by code_simp
  have s: "solve_identity \<lparr> triplets = [(0, 0, 1), (1, 1, 1)], dim = 2 \<rparr>
        (build_RHS_matrix (solver2_solved\<lparr> result := [] \<rparr>)) = Inr [1, 0]
      \<and> num_pores net2 \<le> length [1 :: real, 0]"
    by code_simp
  note th = no_boundary_condition [of solver2_unset solve_identity net2]
    no_boundary_condition [of solver2 solve_identity net2]
  from th(1) z have r0: "do_one_inner_iteration solve_identity net2 solver2_unset
      = Inl (Exception no_bc_message)"
    by blast
  from th(2) nz b s have "do_one_inner_iteration solve_identity net2 solver2 =
      Inr (take (num_pores net2) [1, 0],
           solver2_solved\<lparr> result := [] \<rparr>\<lparr> Neumann_super_X := drop (num_pores net2) [1, 0],
                          result := take (num_pores net2) [1, 0] \<rparr>)"
    by blast
  then have r: "do_one_inner_iteration solve_identity net2 solver2 = Inr ([1, 0], solver2_solved)"
    by (simp add: net2_def make_network_def solver2_solved_def)
  have z': "BCtypes solver2_unset = [0, 0]"
    by (simp add: solver2_unset_def make_solver_def)
  from z' r0 b0 nz r show ?thesis by simp
qed

subsection \<open>The rate across a cut\<close>

lemma find_neighbor_throats_complement:
  assumes "\<forall>c\<in>set (connections net). fst c < num_pores net \<and> snd c < num_pores net"
  shows "find_neighbor_throats net [p \<leftarrow> pore_indices net. p \<notin> set A] = find_neighbor_throats net A"
  unfolding find_neighbor_throats_def
proof (rule filter_cong [OF refl])
  fix t assume "t \<in> set [0..<num_throats net]"
  then have "connections net ! t \<in> set (connections net)"
    by (simp add: num_throats_def)
  with assms have "fst (connections net ! t) < num_pores net" "snd (connections net ! t) < num_pores net"
    by auto
  then show "((fst (connections net ! t) \<in> set [p \<leftarrow> pore_indices net. p \<notin> set A])
       \<noteq> (snd (connections net ! t) \<in> set [p \<leftarrow> pore_indices net. p \<notin> set A]))
     = ((fst (connections net ! t) \<in> set A) \<noteq> (snd (connections net ! t) \<in> set A))"
    by (auto simp: pore_indices_def)
qed

lemma take_idx_Inr: "\<forall>i\<in>set idx. i < length xs \<Longrightarrow> take_idx xs idx = Inr (map ((!) xs) idx)"
  by (simp add: take_idx_def)

lemma map2_map_map: "map2 f (map g xs) (map h xs) = map (\<lambda>x. f (g x) (h x)) xs"
  by (induction xs) auto

lemma rate_pores:
  assumes wf: "\<forall>c\<in>set (connections net). fst c < num_pores net \<and> snd c < num_pores net"
    and X: "length (result st) = num_pores net"
    and g: "conductance st = Array gs" "length gs = num_throats net"
  shows "rate net st (Some A) None =
     Inr (\<Sum>t\<leftarrow>find_neighbor_throats net A.
            gs ! t * (result st ! source_pore net A t - result st ! sink_pore net A t))"
proof -
  let ?ts = "find_neighbor_throats net A"
  have ts: "\<forall>t\<in>set ?ts. t < length (connections net)"
    by (auto simp: find_neighbor_throats_def num_throats_def)
  then have c: "find_connected_pores net ?ts = Inr (map ((!) (connections net)) ?ts)"
    by (simp add: find_connected_pores_def take_idx_Inr)
  have mem: "\<forall>t\<in>set ?ts. connections net ! t \<in> set (connections net)"
    using ts by simp
  have x1: "take_idx (result st) (map (\<lambda>t. source_pore net A t) ?ts)
      = Inr (map (\<lambda>t. result st ! source_pore net A t) ?ts)"
    using mem wf X by (subst take_idx_Inr) (auto simp: source_pore_def)
  have x2: "take_idx (result st) (map (\<lambda>t. sink_pore net A t) ?ts)
      = Inr (map (\<lambda>t. result st ! sink_pore net A t) ?ts)"
    using mem wf X by (subst take_idx_Inr) (auto simp: sink_pore_def)
  have gg: "take_idx gs ?ts = Inr (map ((!) gs) ?ts)"
    using ts g(2) by (simp add: take_idx_Inr num_throats_def)
  show ?thesis
    unfolding rate_def
    by (simp add: c Let_def comp_def source_pore_def [symmetric] sink_pore_def [symmetric]
        x1 x2 g(1) gg map2_map_map)
qed

lemma rate_complement_terms:
  assumes wf: "\<forall>c\<in>set (connections net). fst c < num_pores net \<and> snd c < num_pores net"
    and t: "t \<in> set (find_neighbor_throats net A)"
  shows "source_pore net [p \<leftarrow> pore_indices net. p \<notin> set A] t = sink_pore net A t"
    and "sink_pore net [p \<leftarrow> pore_indices net. p \<notin> set A] t = source_pore net A t"
proof -
  from t have "connections net ! t \<in> set (connections net)"
    and cut: "(fst (connections net ! t) \<in> set A) \<noteq> (snd (connections net ! t) \<in> set A)"
    by (simp_all add: find_neighbor_throats_def num_throats_def)
  with wf have "fst (connections net ! t) < num_pores net" "snd (connections net ! t) < num_pores net"
    by auto
  then show "source_pore net [p \<leftarrow> pore_indices net. p \<notin> set A] t = sink_pore net A t"
    and "sink_pore net [p \<leftarrow> pore_indices net. p \<notin> set A] t = source_pore net A t"
    using cut by (auto simp: source_pore_def sink_pore_def pore_indices_def)
qed

text \<open>
  C6. For a network whose throats join pores of the network, a solved field of one value
  per pore and a conductance array of one value per throat, the rate of a pore set is
  the sum, over the throats with exactly one endpoint in the set, of conductance times
  (potential at the endpoint inside minus potential at the endpoint outside); the rate
  of the complement of the set is the negated rate of the set.
\<close>

theorem rate_antisymmetric:
  assumes "\<forall>c\<in>set (connections net). fst c < num_pores net \<and> snd c < num_pores net"
    and "length (result st) = num_pores net"
    and "conductance st = Array gs" and "length gs = num_throats net"
  shows "rate net st (Some A) None =
           Inr (\<Sum>t\<leftarrow>find_neighbor_throats net A.
                  gs ! t * (result st ! source_pore net A t - result st ! sink_pore net A t))
       \<and> (\<forall>t\<in>set (find_neighbor_throats net A).
            source_pore net A t \<in> set A \<and> sink_pore net A t \<notin> set A)
       \<and> rate net st (Some [p \<leftarrow> pore_indices net. p \<notin> set A]) None =
           Inr (- (\<Sum>t\<leftarrow>find_neighbor_throats net A.
                  gs ! t * (result st ! source_pore net A t - result st ! sink_pore net A t)))"
proof -
  let ?B = "[p \<leftarrow> pore_indices net. p \<notin> set A]"
  have "rate net st (Some ?B) None =
      Inr (\<Sum>t\<leftarrow>find_neighbor_throats net ?B.
             gs ! t * (result st ! source_pore net ?B t - result st ! sink_pore net ?B t))"
    by (rule rate_pores [OF assms])
  also have "find_neighbor_throats net ?B = find_neighbor_throats net A"
    by (rule find_neighbor_throats_complement [OF assms(1)])
  also have "(\<Sum>t\<leftarrow>find_neighbor_throats net A.
             gs ! t * (result st ! source_pore net ?B t - result st ! sink_pore net ?B t))
      = (\<Sum>t\<leftarrow>find_neighbor_throats net A.
             - (gs ! t * (result st ! source_pore net A t - result st ! sink_pore net A t)))"
    by (rule arg_cong [where f = sum_list], rule map_cong [OF refl])
      (simp add: rate_complement_terms [OF assms(1)] algebra_simps)
  also have "\<dots> = - (\<Sum>t\<leftarrow>find_neighbor_throats net A.
             gs ! t * (result st ! source_pore net A t - result st ! sink_pore net A t))"
    by (rule uminus_sum_list_map [symmetric, unfolded comp_def])
  finally have B: "rate net st (Some ?B) None =
      Inr (- (\<Sum>t\<leftarrow>find_neighbor_throats net A.
             gs ! t * (result st ! source_pore net A t - result st ! sink_pore net A t)))" .
  have o: "\<forall>t\<in>set (find_neighbor_throats net A).
            source_pore net A t \<in> set A \<and> sink_pore net A t \<notin> set A"
    by (auto simp: find_neighbor_throats_def source_pore_def sink_pore_def)
  from rate_pores [OF assms] o B show ?thesis by blast
qed

theorem rate_antisymmetric_witness:
  "list_all (\<lambda>c. fst c < num_pores net3 \<and> snd c < num_pores net3) (connections net3)
   \<and> length (result solver3_solved) = num_pores net3
   \<and> conductance solver3_solved = Array [2, 2] \<and> length [2 :: real, 2] = num_throats net3
   \<and> rate net3 solver3_solved (Some [0]) None = Inr 1
   \<and> rate net3 solver3_solved (Some [1, 2]) None = Inr (- 1)"
proof -
  have h: "\<forall>c\<in>set (connections net3). fst c < num_pores net3 \<and> snd c < num_pores net3"
    "length (result solver3_solved) = num_pores net3"
    "conductance solver3_solved = Array [2, 2]" "length [2 :: real, 2] = num_throats net3"
    by (simp_all add: net3_def make_network_def solver3_solved_def make_solver_def num_throats_def)
  have v: "(\<Sum>t\<leftarrow>find_neighbor_throats net3 [0].
       [2, 2] ! t * (result solver3_solved ! source_pore net3 [0] t
                      - result solver3_solved ! sink_pore net3 [0] t)) = 1"
    by code_simp
  have c: "[p \<leftarrow> pore_indices net3. p \<notin> set [0]] = [1, 2]"
    by code_simp
  from rate_antisymmetric [OF h, of "[0]"] show ?thesis
    unfolding v c using h by (simp add: list_all_iff)
qed

subsection \<open>The shape of the conductance\<close>

lemma conductance_entries_Inr_iff:
  "(\<exists>T. conductance_entries net bt d = Inr T) \<longleftrightarrow>
   \<not> (\<exists>t<num_throats net. length d \<le> t
        \<and> (fst (connections net ! t) \<in> set (non_dirichlet bt)
           \<or> snd (connections net ! t) \<in> set (non_dirichlet bt)))"
  by (auto simp: conductance_entries_def loc1_def loc2_def not_less)

lemma conductance_entries_error:
  "conductance_entries net bt d = Inl e \<Longrightarrow> e = IndexError"
  by (auto simp: conductance_entries_def split: if_splits)

lemma length_broadcast_one:
  "sp_size c = 1 \<Longrightarrow> length (broadcast_conductance m c) = m"
  by (cases c) (simp_all add: broadcast_conductance_def)

text \<open>
  C8, as stated, fails: a conductance array of one element on a network of two throats
  is neither a number nor an array of one value per throat, and the build raises
  nothing; it broadcasts the element and returns the matrix.
\<close>

theorem one_element_conductance_counterexample:
  "conductance solver3_short = Array [7]
   \<and> length [7 :: real] \<noteq> num_throats net3
   \<and> build_coefficient_matrix net3 solver3_short = Inr (matrix3_short, solver3_short_built)"
  by code_simp

text \<open>
  C8, amended. No shape test precedes the assembly. A conductance of size 1, a number or
  an array of one element, is broadcast to all connections, and its masked read never
  fails. An array of any other length is used as it is: the build raises an index error
  at the masked read of the conductance exactly when a connection with an endpoint that
  is not Dirichlet has a number beyond the end of the array, and that error is the
  error of the build. A build that returns leaves the broadcast array in the instance.
\<close>

theorem conductance_broadcast_or_masked_read:
  "broadcast_conductance m (Scalar g) = replicate m g
   \<and> broadcast_conductance m (Array [g]) = replicate m g
   \<and> (length gs \<noteq> 1 \<longrightarrow> broadcast_conductance m (Array gs) = gs)
   \<and> (sp_size c = 1 \<longrightarrow>
        (\<exists>T. conductance_entries net bt (broadcast_conductance (num_throats net) c) = Inr T))
   \<and> (length gs \<noteq> 1 \<longrightarrow>
        (conductance_entries net bt (broadcast_conductance (num_throats net) (Array gs)) = Inl IndexError)
        = (\<exists>t<num_throats net. length gs \<le> t
             \<and> (fst (connections net ! t) \<in> set (non_dirichlet bt)
                \<or> snd (connections net ! t) \<in> set (non_dirichlet bt))))
   \<and> (conductance_entries net (default_insulated net (BCtypes st))
         (broadcast_conductance (num_throats net) (conductance st)) = Inl IndexError \<longrightarrow>
        build_coefficient_matrix net st = Inl IndexError)
   \<and> (\<forall>A st'. build_coefficient_matrix net st = Inr (A, st') \<longrightarrow>
        conductance st' = Array (broadcast_conductance (num_throats net) (conductance st)))"
proof (intro conjI impI allI)
  show "broadcast_conductance m (Scalar g) = replicate m g"
    "broadcast_conductance m (Array [g]) = replicate m g"
    by (simp_all add: broadcast_conductance_def)
  show "broadcast_conductance m (Array gs) = gs" if "length gs \<noteq> 1"
    using that by (simp add: broadcast_conductance_def)
  show "\<exists>T. conductance_entries net bt (broadcast_conductance (num_throats net) c) = Inr T"
    if "sp_size c = 1"
    unfolding conductance_entries_Inr_iff using length_broadcast_one [OF that] by simp
  show "(conductance_entries net bt (broadcast_conductance (num_throats net) (Array gs)) = Inl IndexError)
        = (\<exists>t<num_throats net. length gs \<le> t
             \<and> (fst (connections net ! t) \<in> set (non_dirichlet bt)
                \<or> snd (connections net ! t) \<in> set (non_dirichlet bt)))"
    if "length gs \<noteq> 1"
  proof -
    have d: "broadcast_conductance (num_throats net) (Array gs) = gs"
      using that by (simp add: broadcast_conductance_def)
    have "(conductance_entries net bt gs = Inl IndexError) = (\<not> (\<exists>T. conductance_entries net bt gs = Inr T))"
      using conductance_entries_error [of net bt gs]
      by (cases "conductance_entries net bt gs") auto
    then show ?thesis
      unfolding d conductance_entries_Inr_iff by auto
  qed
  show "build_coefficient_matrix net st = Inl IndexError"
    if "conductance_entries net (default_insulated net (BCtypes st))
         (broadcast_conductance (num_throats net) (conductance st)) = Inl IndexError"
    using that by (simp add: build_coefficient_matrix_def Let_def)
  show "conductance st' = Array (broadcast_conductance (num_throats net) (conductance st))"
    if "build_coefficient_matrix net st = Inr (A, st')" for A st'
    using that by (rule build_parts)
qed

theorem conductance_broadcast_or_masked_read_witness:
  "broadcast_conductance 2 (Array [7]) = [7, 7]
   \<and> sp_size (Scalar 2) = 1
   \<and> conductance_entries net3 [1, 1, 3] (broadcast_conductance (num_throats net3) (Scalar 2))
       = Inr [(2, 1, 2)]
   \<and> length ([] :: real list) \<noteq> 1
   \<and> conductance_entries net2 (default_insulated net2 (BCtypes solver2_unset))
         (broadcast_conductance (num_throats net2) (conductance solver2_unset)) = Inl IndexError
   \<and> build_coefficient_matrix net2 solver2_unset = Inl IndexError
   \<and> build_coefficient_matrix net3 solver3 = Inr (matrix3, solver3_built)
   \<and> conductance solver3_built = Array (broadcast_conductance (num_throats net3) (conductance solver3))"
proof -
  note th = conductance_broadcast_or_masked_read
  have a: "broadcast_conductance 2 (Array [7]) = [7, 7]"
    using th [where m = 2 and g = 7] by (simp add: numeral_2_eq_2)
  have s: "sp_size (Scalar 2) = 1" by simp
  from th [where c = "Scalar 2" and net = net3 and bt = "[1, 1, 3]"] s
  have ex: "\<exists>T. conductance_entries net3 [1, 1, 3] (broadcast_conductance (num_throats net3) (Scalar 2)) = Inr T"
    by blast
  have T': "conductance_entries net3 [1, 1, 3] (broadcast_conductance (num_throats net3) (Scalar 2))
       = Inr [(2, 1, 2)]"
    by code_simp
  have e: "length ([] :: real list) \<noteq> 1" by simp
  have ce: "conductance_entries net2 (default_insulated net2 (BCtypes solver2_unset))
         (broadcast_conductance (num_throats net2) (conductance solver2_unset)) = Inl IndexError"
    by code_simp
  from th [where net = net2 and st = solver2_unset] ce
  have b0: "build_coefficient_matrix net2 solver2_unset = Inl IndexError"
    by blast
  have b: "build_coefficient_matrix net3 solver3 = Inr (matrix3, solver3_built)"
    by code_simp
  from th [where net = net3 and st = solver3] b
  have c: "conductance solver3_built = Array (broadcast_conductance (num_throats net3) (conductance solver3))"
    by blast
  from a s T' e ce b0 b c show ?thesis by simp
qed

subsection \<open>The estimator's override of the boundary conditions\<close>

lemma temps_set_pore_info [simp]: "temps (set_pore_info inst label locs ow) = temps inst"
  by (simp add: temps_def set_pore_info_def)

lemma temps_set_pore_data_at [simp]: "temps (set_pore_data_at inst prop v locs) = temps inst"
  by (simp add: temps_def set_pore_data_at_def)








subsection \<open>The estimator's result\<close>













subsection \<open>Throat diameter\<close>

lemma minpore_wf_value:
  assumes "geo_wf network nTs"
  shows "minpore network nTs =
    Inr (map (\<lambda>t. let a = pore_diameter network ! fst (throat_conns network ! t);
                      b = pore_diameter network ! snd (throat_conns network ! t)
                  in if min a b = 0 then max a b else min a b) nTs)"
proof -
  have r: "\<forall>t\<in>set nTs. t < length (throat_conns network)
        \<and> fst (throat_conns network ! t) < length (pore_diameter network)
        \<and> snd (throat_conns network ! t) < length (pore_diameter network)"
    using assms by (simp add: geo_wf_def list_all_iff)
  then have t: "take_idx (throat_conns network) nTs = Inr (map ((!) (throat_conns network)) nTs)"
    by (simp add: take_idx_def)
  show ?thesis
    unfolding minpore_def t using r
    by (auto simp: Let_def intro!: nth_equalityI)
qed

text \<open>
  C10. For every throat of the geometry whose connection and pore numbers are in range,
  \<open>minpore\<close> returns (it does not raise) one value per throat: the smaller of the two
  connecting pore diameters, unless that minimum is zero, in which case the larger of
  the two.
\<close>

theorem minpore_min_or_max:
  assumes "geo_wf network nTs"
  shows "\<exists>value. minpore network nTs = Inr value \<and> length value = length nTs \<and>
    (\<forall>i<length nTs.
       value ! i =
         (let a = pore_diameter network ! fst (throat_conns network ! (nTs ! i));
              b = pore_diameter network ! snd (throat_conns network ! (nTs ! i))
          in if min a b = 0 then max a b else min a b))"
  using minpore_wf_value [OF assms] by simp

theorem minpore_min_or_max_witness:
  "geo_wf geo_example [0, 1, 2] \<and> minpore geo_example [0, 1, 2] = Inr [3, 2, 0]"
proof -
  have w: "geo_wf geo_example [0, 1, 2]"
    by (simp add: geo_wf_def geo_example_def)
  from minpore_min_or_max [OF w] obtain v where
    v: "minpore geo_example [0, 1, 2] = Inr v" "length v = 3"
      "\<forall>i<3. v ! i =
         (let a = pore_diameter geo_example ! fst (throat_conns geo_example ! ([0, 1, 2] ! i));
              b = pore_diameter geo_example ! snd (throat_conns geo_example ! ([0, 1, 2] ! i))
          in if min a b = 0 then max a b else min a b)"
    by auto
  have "v ! 0 = 3" "v ! 1 = 2" "v ! 2 = 0"
    using v(3) by (simp_all add: geo_example_def)
  then have "v = [3, 2, 0]"
    using v(2) by (auto simp: nth_equalityI numeral_3_eq_3 less_Suc_eq length_Suc_conv)
  with v(1) w show ?thesis by simp
qed

end
